theory Spec2Isabelle
  imports Main "HOL-Library.Sublist"
begin

section \<open>Image type sniffing: a shallow embedding of \<open>imghdr.py\<close>\<close>

text \<open>
  The module has two functions: \<open>_read_bytes(file, n)\<close>, which turns the argument
  (nothing, a bytes object, a path, or a file-like object) into a byte prefix, and
  \<open>what(file, h)\<close>, which compares the prefix with a fixed chain of magic numbers.

  Python \<open>bytes\<close> are lists of 8-bit characters, so that the literal \<open>b"GIF87a"\<close> of
  the source is the literal \<open>''GIF87a''\<close> here and \<open>b"\xff"\<close> is \<open>[CHR 0xFF]\<close>.
  Everything outside the module that the two functions touch is explicit: the file
  system is a function from paths to what \<open>open(path, "rb")\<close> gives, a file-like
  object is a record of its content, its read position and the behaviour of its
  methods, and every call is recorded in a log of I/O events. An exception is the
  \<open>Inl\<close> side of a sum. A stream opened in text mode returns \<open>str\<close> from \<open>read\<close>, so
  the value that \<open>_read_bytes\<close> hands to \<open>what\<close> is either \<open>bytes\<close> or \<open>str\<close>.
\<close>

subsection \<open>Data\<close>

type_synonym byte = char
type_synonym bytes = "byte list"
type_synonym path = string

datatype exn =
    FileNotFoundError
  | PermissionError
  | IsADirectoryError
  | UnsupportedOperation
  | ValueError
  | AttributeError
  | TypeError
  | KeyboardInterrupt

text \<open>
  \<open>isinstance(e, Exception)\<close>, which is what \<open>except Exception\<close> tests: every class
  above derives from \<open>Exception\<close> but \<open>KeyboardInterrupt\<close>, which derives from
  \<open>BaseException\<close> only.
\<close>

fun is_Exception :: "exn \<Rightarrow> bool" where
  "is_Exception KeyboardInterrupt = False"
| "is_Exception e = True"

text \<open>What a \<open>read\<close> returns: \<open>bytes\<close> from a binary stream, \<open>str\<close> from a text stream.\<close>

datatype pyval =
    PBytes bytes
  | PStr string

text \<open>
  What \<open>open(path, "rb")\<close> finds: the exception it raises, or the content of the
  file that it opens.
\<close>

type_synonym filesystem = "path \<Rightarrow> exn + bytes"

text \<open>
  A file-like object. \<open>has_seek\<close> and \<open>has_tell\<close> are what \<open>hasattr\<close> answers;
  \<open>tell_raises\<close>, \<open>seek_raises\<close> and \<open>read_raises\<close> say whether calling the method
  raises (a closed file, a stream opened for writing only, a pipe, or an object that
  has no \<open>read\<close> at all, for which the call raises \<open>AttributeError\<close>); \<open>text_mode\<close>
  says whether \<open>read\<close> returns \<open>str\<close>.
\<close>

record fileobj =
  content :: bytes
  position :: nat
  text_mode :: bool
  has_seek :: bool
  has_tell :: bool
  tell_raises :: "exn option"
  seek_raises :: "exn option"
  read_raises :: "exn option"

datatype source =
    SNone
  | SBytes bytes
  | SPath path
  | SFile fileobj

datatype io_event =
    Open path
  | Tell
  | Seek nat
  | Read nat

subsection \<open>Python primitives\<close>

text \<open>\<open>b.startswith(p)\<close>: the first \<open>len(p)\<close> bytes of \<open>b\<close> are \<open>p\<close>.\<close>

definition startswith :: "bytes \<Rightarrow> bytes \<Rightarrow> bool" where
  "startswith b p = (take (length p) b = p)"

text \<open>
  \<open>b[i:j]\<close> for literal bounds \<open>0 \<le> i \<le> j\<close>: a slice is clipped to the
  sequence and never raises.
\<close>

definition slice :: "bytes \<Rightarrow> nat \<Rightarrow> nat \<Rightarrow> bytes" where
  "slice b i j = take (j - i) (drop i b)"

text \<open>The methods of a file-like object: the result and the object afterwards.\<close>

definition tell :: "fileobj \<Rightarrow> exn + nat" where
  "tell f = (case tell_raises f of Some e \<Rightarrow> Inl e | None \<Rightarrow> Inr (position f))"

definition seek :: "fileobj \<Rightarrow> nat \<Rightarrow> exn + fileobj" where
  "seek f p = (case seek_raises f of Some e \<Rightarrow> Inl e | None \<Rightarrow> Inr (f\<lparr>position := p\<rparr>))"

definition read :: "fileobj \<Rightarrow> nat \<Rightarrow> exn + (pyval \<times> fileobj)" where
  "read f n =
     (case read_raises f of
        Some e \<Rightarrow> Inl e
      | None \<Rightarrow>
          (let data = take n (drop (position f) (content f))
           in Inr (if text_mode f then PStr data else PBytes data,
                   f\<lparr>position := position f + length data\<rparr>)))"

text \<open>The truth value of a \<open>bytes\<close> or \<open>str\<close> value, and \<open>data or b""\<close>.\<close>

fun truthy :: "pyval \<Rightarrow> bool" where
  "truthy (PBytes b) = (b \<noteq> [])"
| "truthy (PStr s) = (s \<noteq> [])"

definition or_empty :: "pyval \<Rightarrow> pyval" where
  "or_empty data = (if truthy data then data else PBytes [])"

subsection \<open>\<open>_read_bytes\<close>\<close>

text \<open>
  The body of the \<open>try\<close> block of \<open>_read_bytes\<close> (lines 25 to 32), before the
  handler: the value returned or the exception raised, the object afterwards, and the
  calls made.
\<close>

definition read_filelike :: "fileobj \<Rightarrow> nat \<Rightarrow> (exn + pyval) \<times> fileobj \<times> io_event list" where
  "read_filelike f n =
     (if has_seek f \<and> has_tell f then
        (case tell f of
           Inl e \<Rightarrow> (Inl e, f, [Tell])
         | Inr pos \<Rightarrow>
             (case seek f 0 of
                Inl e \<Rightarrow> (Inl e, f, [Tell, Seek 0])
              | Inr f1 \<Rightarrow>
                  (case read f1 n of
                     Inl e \<Rightarrow> (Inl e, f1, [Tell, Seek 0, Read n])
                   | Inr (data, f2) \<Rightarrow>
                       (case seek f2 pos of
                          Inl e \<Rightarrow> (Inl e, f2, [Tell, Seek 0, Read n, Seek pos])
                        | Inr f3 \<Rightarrow>
                            (Inr (or_empty data), f3, [Tell, Seek 0, Read n, Seek pos])))))
      else
        (case read f n of
           Inl e \<Rightarrow> (Inl e, f, [Read n])
         | Inr (data, f1) \<Rightarrow> (Inr (or_empty data), f1, [Read n])))"

text \<open>
  \<open>_read_bytes(file, n)\<close>. Only the file-like branch is inside \<open>try ... except
  Exception: return b""\<close>; the \<open>open\<close> of the path branch is not. The handler
  catches what derives from \<open>Exception\<close> and lets anything else pass.
\<close>

definition read_bytes ::
  "filesystem \<Rightarrow> source \<Rightarrow> nat \<Rightarrow> (exn + pyval) \<times> source \<times> io_event list" where
  "read_bytes fs file n =
     (case file of
        SNone \<Rightarrow> (Inr (PBytes []), file, [])
      | SBytes b \<Rightarrow> (Inr (PBytes (take n b)), file, [])
      | SPath p \<Rightarrow>
          (case fs p of
             Inl e \<Rightarrow> (Inl e, file, [Open p])
           | Inr c \<Rightarrow> (Inr (PBytes (take n c)), file, [Open p, Read n]))
      | SFile f \<Rightarrow>
          (case read_filelike f n of
             (Inl e, f', log) \<Rightarrow>
               (if is_Exception e then Inr (PBytes []) else Inl e, SFile f', log)
           | (Inr data, f', log) \<Rightarrow> (Inr data, SFile f', log)))"

subsection \<open>\<open>what\<close>\<close>

text \<open>Lines 43 to 68 of \<open>what\<close> on a \<open>bytes\<close> header: the chain of tests.\<close>

definition what_header :: "bytes \<Rightarrow> string option" where
  "what_header header =
     (if header = [] then None
      else if startswith header [CHR 0xFF, CHR 0xD8, CHR 0xFF] then Some ''jpeg''
      else if startswith header
                ([CHR 0x89] @ ''PNG'' @ [CHR 0x0D, CHR 0x0A, CHR 0x1A, CHR 0x0A])
        then Some ''png''
      else if startswith header ''GIF87a'' \<or> startswith header ''GIF89a'' then Some ''gif''
      else if startswith header ''BM'' then Some ''bmp''
      else if startswith header (''II*'' @ [CHR 0x00]) \<or>
              startswith header (''MM'' @ [CHR 0x00] @ ''*'')
        then Some ''tiff''
      else if slice header 0 4 = ''RIFF'' \<and> slice header 8 12 = ''WEBP'' then Some ''webp''
      else if startswith header [CHR 0x00, CHR 0x00, CHR 0x01, CHR 0x00] then Some ''ico''
      else None)"

text \<open>
  \<open>what(file, h)\<close>: the header is \<open>h\<close> when it is not \<open>None\<close>, and else what
  \<open>_read_bytes(file, 64)\<close> returns; an exception of \<open>_read_bytes\<close> leaves \<open>what\<close>.
  On a header that is a \<open>str\<close>, the guard of line 43 returns \<open>None\<close> when it is empty,
  and else \<open>header.startswith(b"\xff\xd8\xff")\<close> of line 47 raises \<open>TypeError\<close>.
\<close>

definition what ::
  "filesystem \<Rightarrow> source \<Rightarrow> bytes option \<Rightarrow> (exn + string option) \<times> source \<times> io_event list" where
  "what fs file h =
     (case (case h of
              Some hb \<Rightarrow> (Inr (PBytes hb), file, [])
            | None \<Rightarrow> read_bytes fs file 64) of
        (Inl e, file', log) \<Rightarrow> (Inl e, file', log)
      | (Inr (PBytes header), file', log) \<Rightarrow> (Inr (what_header header), file', log)
      | (Inr (PStr header), file', log) \<Rightarrow>
          (if header = [] then Inr None else Inl TypeError, file', log))"

subsection \<open>The signature table of the specification\<close>

text \<open>
  The specification describes the matcher as an ordered table of rules, each a label
  with a predicate on the prefix, of which the first that holds gives the result. The
  table below follows its words: "starts with" is the prefix order on lists, and "the
  bytes at offset \<open>i..i+n-1\<close> equal" requires those \<open>n\<close> bytes to exist.
\<close>

definition bytes_at :: "bytes \<Rightarrow> nat \<Rightarrow> nat \<Rightarrow> bytes option" where
  "bytes_at b i n = (if i + n \<le> length b then Some (take n (drop i b)) else None)"

definition signature_rules :: "(string \<times> (bytes \<Rightarrow> bool)) list" where
  "signature_rules =
     [(''jpeg'', \<lambda>b. prefix [CHR 0xFF, CHR 0xD8, CHR 0xFF] b),
      (''png'', \<lambda>b. prefix [CHR 0x89, CHR 0x50, CHR 0x4E, CHR 0x47,
                             CHR 0x0D, CHR 0x0A, CHR 0x1A, CHR 0x0A] b),
      (''gif'', \<lambda>b. prefix ''GIF87a'' b \<or> prefix ''GIF89a'' b),
      (''bmp'', \<lambda>b. prefix ''BM'' b),
      (''tiff'', \<lambda>b. prefix [CHR 0x49, CHR 0x49, CHR 0x2A, CHR 0x00] b \<or>
                      prefix [CHR 0x4D, CHR 0x4D, CHR 0x00, CHR 0x2A] b),
      (''webp'', \<lambda>b. bytes_at b 0 4 = Some ''RIFF'' \<and> bytes_at b 8 4 = Some ''WEBP''),
      (''ico'', \<lambda>b. prefix [CHR 0x00, CHR 0x00, CHR 0x01, CHR 0x00] b)]"

fun first_match :: "(string \<times> (bytes \<Rightarrow> bool)) list \<Rightarrow> bytes \<Rightarrow> string option" where
  "first_match [] b = None"
| "first_match ((label, holds) # rules) b =
     (if holds b then Some label else first_match rules b)"

text \<open>
  The number of leading bytes that each rule of the table reads, in the order of the
  table (the webp rule reads up to offset 11), and the rules that fit in a prefix:
  those that read no more bytes than it has.
\<close>

definition signature_lengths :: "nat list" where
  "signature_lengths = [3, 8, 6, 2, 4, 12, 4]"

definition fitting_rules :: "bytes \<Rightarrow> (string \<times> (bytes \<Rightarrow> bool)) list" where
  "fitting_rules b =
     map snd (filter (\<lambda>(n, rule). n \<le> length b) (zip signature_lengths signature_rules))"

definition labels :: "string set" where
  "labels = {''jpeg'', ''png'', ''gif'', ''bmp'', ''tiff'', ''webp'', ''ico''}"

subsection \<open>Example inputs\<close>

text \<open>A disk that holds one file, a JPEG; no other path exists.\<close>

definition jfif :: bytes where
  "jfif = [CHR 0xFF, CHR 0xD8, CHR 0xFF, CHR 0xE0, CHR 0x00, CHR 0x10] @ ''JFIF''"

definition disk :: filesystem where
  "disk = (\<lambda>p. if p = ''photo.jpg'' then Inr jfif else Inl FileNotFoundError)"

text \<open>
  A binary file opened for writing, after seven bytes were written to it: \<open>seek\<close> and
  \<open>tell\<close> work, \<open>read\<close> raises \<open>io.UnsupportedOperation\<close>.
\<close>

definition write_only :: fileobj where
  "write_only =
     \<lparr>content = ''BM-data'', position = 7, text_mode = False,
      has_seek = True, has_tell = True,
      tell_raises = None, seek_raises = None, read_raises = Some UnsupportedOperation\<rparr>"

section \<open>Properties\<close>

subsection \<open>The primitives\<close>

lemma startswith_Nil [simp]: "startswith b [] = True"
  by (simp add: startswith_def)

lemma startswith_empty [simp]: "startswith [] (p # ps) = False"
  by (simp add: startswith_def)

lemma startswith_Cons [simp]: "startswith (x # xs) (p # ps) = (x = p \<and> startswith xs ps)"
  by (simp add: startswith_def)

lemma startswith_prefix: "startswith b p = prefix p b"
  unfolding startswith_def
  by (metis prefix_def take_is_prefix append_eq_conv_conj)

lemma startswith_take: "length p \<le> n \<Longrightarrow> startswith (take n b) p = startswith b p"
  by (simp add: startswith_def min_def)

lemma startswith_short: "length b < length p \<Longrightarrow> \<not> startswith b p"
  by (auto simp: startswith_def)

lemma slice_take: "j \<le> n \<Longrightarrow> slice (take n b) i j = slice b i j"
  by (simp add: slice_def drop_take min_def)

lemma slice_short: "length b < j \<Longrightarrow> i < j \<Longrightarrow> length (slice b i j) < j - i"
  by (auto simp: slice_def)

lemma slice_bytes_at:
  "length q = j - i \<Longrightarrow> i < j \<Longrightarrow> (slice b i j = q) = (bytes_at b i (j - i) = Some q)"
  by (auto simp: slice_def bytes_at_def)

lemma or_empty_bytes [simp]: "or_empty (PBytes b) = PBytes b"
  by (simp add: or_empty_def)

lemma is_Exception_iff: "is_Exception e = (e \<noteq> KeyboardInterrupt)"
  by (cases e) simp_all

subsection \<open>The header chain\<close>

text \<open>No test of the chain looks beyond the twelfth byte.\<close>

lemma what_header_take: "12 \<le> n \<Longrightarrow> what_header (take n b) = what_header b"
proof -
  assume n: "12 \<le> n"
  have e: "(take n b = []) = (b = [])"
    using n by (cases b) auto
  have s: "\<And>p. length p \<le> 12 \<Longrightarrow> startswith (take n b) p = startswith b p"
    using n by (simp add: startswith_take)
  have l: "\<And>i j. j \<le> 12 \<Longrightarrow> slice (take n b) i j = slice b i j"
    using n by (simp add: slice_take)
  show ?thesis
    unfolding what_header_def by (simp only: e) (simp add: s l)
qed

lemma what_override: "what fs file (Some h) = (Inr (what_header h), file, [])"
  by (simp add: what_def)

lemma what_bytes: "what fs (SBytes b) None = (Inr (what_header b), SBytes b, [])"
  by (simp add: what_def read_bytes_def what_header_take)

lemma what_header_rules: "what_header b = first_match signature_rules b"
proof -
  have r: "(slice b 0 4 = ''RIFF'') = (bytes_at b 0 4 = Some ''RIFF'')"
    using slice_bytes_at [of "''RIFF''" 4 0 b] by simp
  have w: "(slice b 8 12 = ''WEBP'') = (bytes_at b 8 4 = Some ''WEBP'')"
    using slice_bytes_at [of "''WEBP''" 12 8 b] by simp
  have e: "b = [] \<Longrightarrow> first_match signature_rules b = None"
    by (simp add: signature_rules_def bytes_at_def)
  show ?thesis
  proof (cases "b = []")
    case True
    then show ?thesis
      using e by (simp add: what_header_def)
  next
    case False
    then show ?thesis
      unfolding what_header_def signature_rules_def
      by (simp only: r w startswith_prefix first_match.simps) simp
  qed
qed

lemma first_match_labels: "first_match signature_rules b \<in> insert None (Some ` labels)"
  unfolding signature_rules_def labels_def first_match.simps by simp

text \<open>
  C3. For every byte prefix, \<open>what\<close> returns the label of the first rule of the
  table jpeg, png, gif, bmp, tiff, webp, ico whose predicate holds, and \<open>None\<close> when
  none holds, whether the prefix is the override \<open>h\<close> or was read from the source; the
  result is one of the seven labels or \<open>None\<close>.
\<close>

theorem what_first_matching_rule:
  "what_header b = first_match signature_rules b \<and>
   what fs file (Some b) = (Inr (first_match signature_rules b), file, []) \<and>
   (read_bytes fs file 64 = (Inr (PBytes b), file', log) \<longrightarrow>
      what fs file None = (Inr (first_match signature_rules b), file', log)) \<and>
   first_match signature_rules b \<in> insert None (Some ` labels)"
  using first_match_labels [of b] by (simp add: what_def what_header_rules)

theorem what_first_matching_rule_witness:
  "read_bytes disk (SBytes ''GIF89a-rest'') 64 =
     (Inr (PBytes ''GIF89a-rest''), SBytes ''GIF89a-rest'', []) \<and>
   what disk (SBytes ''GIF89a-rest'') None =
     (Inr (Some ''gif''), SBytes ''GIF89a-rest'', []) \<and>
   first_match signature_rules ''GIF89a-rest'' = Some ''gif''"
proof -
  have h: "read_bytes disk (SBytes ''GIF89a-rest'') 64 =
     (Inr (PBytes ''GIF89a-rest''), SBytes ''GIF89a-rest'', [])"
    by (simp add: read_bytes_def)
  have m: "first_match signature_rules ''GIF89a-rest'' = Some ''gif''"
    by (simp add: signature_rules_def)
  show ?thesis
    using h m
      what_first_matching_rule [of "''GIF89a-rest''" disk
        "SBytes ''GIF89a-rest''" "SBytes ''GIF89a-rest''" "[]"]
    by simp
qed

lemma what_header_short: "length b < 2 \<Longrightarrow> what_header b = None"
proof (cases b)
  case Nil
  then show ?thesis
    by (simp add: what_header_def)
next
  case (Cons x xs)
  assume "length b < 2"
  with Cons have "xs = []"
    by simp
  with Cons show ?thesis
    by (simp add: what_header_def slice_def)
qed

subsection \<open>Reading the prefix\<close>

text \<open>
  The file-like branch of \<open>_read_bytes\<close> lets no exception out that derives from
  \<open>Exception\<close>: on a binary stream, whatever \<open>tell\<close>, \<open>seek\<close> and \<open>read\<close> do short of
  a \<open>KeyboardInterrupt\<close>, \<open>what\<close> returns a value.
\<close>

lemma read_filelike_raises:
  "read_filelike f n = (Inl e, f', log) \<Longrightarrow>
     tell_raises f = Some e \<or> seek_raises f = Some e \<or> read_raises f = Some e"
  by (auto simp: read_filelike_def tell_def seek_def read_def Let_def
      split: if_splits option.splits)

lemma read_filelike_binary:
  "\<not> text_mode f \<Longrightarrow> read_filelike f n = (Inr v, f', log) \<Longrightarrow> \<exists>b. v = PBytes b"
  by (auto simp: read_filelike_def tell_def seek_def read_def Let_def
      split: if_splits option.splits)

lemma what_filelike_no_exception:
  assumes "\<not> text_mode f"
    and "tell_raises f \<noteq> Some KeyboardInterrupt"
    and "seek_raises f \<noteq> Some KeyboardInterrupt"
    and "read_raises f \<noteq> Some KeyboardInterrupt"
  shows "\<exists>r f' log. what fs (SFile f) None = (Inr r, SFile f', log)"
proof -
  obtain v f' log where r: "read_filelike f 64 = (v, f', log)"
    by (cases "read_filelike f 64") auto
  show ?thesis
  proof (cases v)
    case (Inl e)
    with r assms have "is_Exception e"
      using read_filelike_raises [of f 64 e f' log] by (auto simp: is_Exception_iff)
    with r Inl show ?thesis
      by (simp add: what_def read_bytes_def what_header_def)
  next
    case (Inr x)
    with r assms obtain b where "x = PBytes b"
      using read_filelike_binary [of f 64 x f' log] by auto
    with r Inr show ?thesis
      by (simp add: what_def read_bytes_def)
  qed
qed

text \<open>
  A stream opened in text mode is outside that: its \<open>read\<close> returns a \<open>str\<close>, which
  \<open>_read_bytes\<close> hands on, and the first test of the chain raises \<open>TypeError\<close>.
\<close>

lemma what_text_stream_raises:
  "text_mode f \<Longrightarrow> \<not> has_seek f \<Longrightarrow> read_raises f = None \<Longrightarrow>
   take 64 (drop (position f) (content f)) \<noteq> [] \<Longrightarrow>
   fst (what fs (SFile f) None) = Inl TypeError"
  by (simp add: what_def read_bytes_def read_filelike_def read_def Let_def or_empty_def)

text \<open>
  When none of \<open>tell\<close>, \<open>seek\<close> and \<open>read\<close> raises, a binary stream that has \<open>seek\<close>
  and \<open>tell\<close> is left as it was found, so that a second call sees what the first saw.
\<close>

lemma what_seekable_restores:
  "has_seek f \<Longrightarrow> has_tell f \<Longrightarrow> tell_raises f = None \<Longrightarrow> seek_raises f = None \<Longrightarrow>
   read_raises f = None \<Longrightarrow> \<not> text_mode f \<Longrightarrow>
   what fs (SFile f) None =
     (Inr (what_header (take 64 (content f))), SFile f,
      [Tell, Seek 0, Read 64, Seek (position f)])"
  by (simp add: what_def read_bytes_def read_filelike_def tell_def seek_def read_def Let_def)

text \<open>
  C1. The code departs from the claim: the path branch of \<open>_read_bytes\<close> is outside
  the \<open>try\<close>, so when \<open>open\<close> raises for a path (no such file, no permission), the
  exception leaves \<open>what\<close>; no label and no \<open>None\<close> is returned.
\<close>

theorem what_path_open_raises:
  "fs p = Inl e \<Longrightarrow> what fs (SPath p) None = (Inl e, SPath p, [Open p])"
  by (simp add: what_def read_bytes_def)

theorem what_path_open_raises_witness:
  "disk ''missing.png'' = Inl FileNotFoundError \<and>
   what disk (SPath ''missing.png'') None =
     (Inl FileNotFoundError, SPath ''missing.png'', [Open ''missing.png''])"
  using what_path_open_raises [of disk "''missing.png''" FileNotFoundError]
  by (simp add: disk_def)

text \<open>
  C2. The code departs from the claim: when \<open>read\<close> raises on a stream that has
  \<open>seek\<close> and \<open>tell\<close>, the handler returns the empty prefix and the \<open>seek\<close> back is
  skipped. The stream that stood at position 7 before the call stands at position 0
  after it.
\<close>

theorem what_read_raises_position_lost:
  "position write_only = 7 \<and>
   what fs (SFile write_only) None =
     (Inr None, SFile (write_only\<lparr>position := 0\<rparr>), [Tell, Seek 0, Read 64])"
  by (simp add: what_def read_bytes_def read_filelike_def tell_def seek_def read_def
      write_only_def what_header_def)

subsection \<open>The override prefix\<close>

text \<open>
  C4. When the override prefix \<open>h\<close> is present, it is used as the byte prefix as it
  is: the result of \<open>what(source, h)\<close> is that of the chain of tests on \<open>h\<close>, the
  first matching rule of the table on \<open>h\<close>. It is \<open>what\<close> of \<open>h\<close> alone (as the only
  argument, or as the prefix with no source): the source is returned as it was, the
  log of I/O is empty, and the result is the same for every source and every file
  system. So an override that is a GIF wins over a source that alone is a JPEG, and
  an override that is a BMP is classified when opening the source alone would raise.
\<close>

theorem what_override_ignores_source:
  "what fs file (Some h) = (Inr (what_header h), file, []) \<and>
   what fs file (Some h) = (Inr (first_match signature_rules h), file, []) \<and>
   what fs file (Some h) = (fst (what fs' SNone (Some h)), file, []) \<and>
   fst (what fs file (Some h)) = fst (what fs' (SBytes h) None) \<and>
   fst (what fs file (Some h)) = fst (what fs' file' (Some h)) \<and>
   what disk (SPath ''photo.jpg'') None =
     (Inr (Some ''jpeg''), SPath ''photo.jpg'', [Open ''photo.jpg'', Read 64]) \<and>
   what disk (SPath ''photo.jpg'') (Some ''GIF89a'') =
     (Inr (Some ''gif''), SPath ''photo.jpg'', []) \<and>
   what disk (SPath ''missing.png'') None =
     (Inl FileNotFoundError, SPath ''missing.png'', [Open ''missing.png'']) \<and>
   what disk (SPath ''missing.png'') (Some ''BM'') =
     (Inr (Some ''bmp''), SPath ''missing.png'', [])"
proof -
  have general:
    "what fs file (Some h) = (Inr (what_header h), file, []) \<and>
     what fs file (Some h) = (Inr (first_match signature_rules h), file, []) \<and>
     what fs file (Some h) = (fst (what fs' SNone (Some h)), file, []) \<and>
     fst (what fs file (Some h)) = fst (what fs' (SBytes h) None) \<and>
     fst (what fs file (Some h)) = fst (what fs' file' (Some h))"
    using what_header_rules [of h] by (simp add: what_override what_bytes)
  have jpeg: "what disk (SPath ''photo.jpg'') None =
     (Inr (Some ''jpeg''), SPath ''photo.jpg'', [Open ''photo.jpg'', Read 64])"
    by (simp add: what_def read_bytes_def what_header_def disk_def jfif_def)
  have gif: "what disk (SPath ''photo.jpg'') (Some ''GIF89a'') =
     (Inr (Some ''gif''), SPath ''photo.jpg'', [])"
    by (simp add: what_override what_header_def)
  have missing: "what disk (SPath ''missing.png'') None =
     (Inl FileNotFoundError, SPath ''missing.png'', [Open ''missing.png''])"
    by (simp add: what_def read_bytes_def disk_def)
  have bmp: "what disk (SPath ''missing.png'') (Some ''BM'') =
     (Inr (Some ''bmp''), SPath ''missing.png'', [])"
    by (simp add: what_override what_header_def)
  show ?thesis
    using general jpeg gif missing bmp by blast
qed

text \<open>
  C9. An override prefix that is present and empty gives \<open>None\<close> for every source,
  with no I/O and the source untouched, also for a source that alone is recognised.
\<close>

theorem what_empty_override:
  "what fs file (Some []) = (Inr None, file, []) \<and>
   what disk (SPath ''photo.jpg'') None =
     (Inr (Some ''jpeg''), SPath ''photo.jpg'', [Open ''photo.jpg'', Read 64]) \<and>
   what disk (SPath ''photo.jpg'') (Some []) = (Inr None, SPath ''photo.jpg'', [])"
  by (simp add: what_def read_bytes_def what_header_def disk_def jfif_def)

subsection \<open>The matching stage\<close>

text \<open>
  A rule that holds of a prefix fits in it, so leaving out the rules that do not fit
  changes nothing: each of them fails and the decision passes to the next rule.
\<close>

lemma first_match_fitting:
  "(\<And>n l t. (n, l, t) \<in> set zs \<Longrightarrow> t b \<Longrightarrow> n \<le> length b) \<Longrightarrow>
   first_match (map snd (filter (\<lambda>(n, rule). n \<le> length b) zs)) b =
   first_match (map snd zs) b"
proof (induction zs)
  case Nil
  then show ?case
    by simp
next
  case (Cons z zs)
  obtain n l t where z: "z = (n, l, t)"
    by (cases z) auto
  have rest: "first_match (map snd (filter (\<lambda>(n, rule). n \<le> length b) zs)) b =
      first_match (map snd zs) b"
    using Cons by auto
  have fits: "t b \<Longrightarrow> n \<le> length b"
    using Cons.prems [of n l t] z by simp
  show ?case
    using rest fits z by auto
qed

lemma bytes_at_Some_length: "bytes_at b i n = Some q \<Longrightarrow> i + n \<le> length b"
  by (simp add: bytes_at_def split: if_splits)

lemma what_header_fitting: "what_header b = first_match (fitting_rules b) b"
proof -
  have "first_match (fitting_rules b) b =
      first_match (map snd (zip signature_lengths signature_rules)) b"
    unfolding fitting_rules_def
  proof (rule first_match_fitting)
    fix n l t
    assume m: "(n, l, t) \<in> set (zip signature_lengths signature_rules)" and t: "t b"
    from m t show "n \<le> length b"
      unfolding signature_lengths_def signature_rules_def
      by (auto dest: prefix_length_le bytes_at_Some_length)
  qed
  also have "map snd (zip signature_lengths signature_rules) = signature_rules"
    by (simp add: signature_lengths_def signature_rules_def)
  finally show ?thesis
    by (simp add: what_header_rules)
qed

lemma what_header_below_4:
  "length b < 4 \<Longrightarrow>
   what_header b =
     (if startswith b [CHR 0xFF, CHR 0xD8, CHR 0xFF] then Some ''jpeg''
      else if startswith b ''BM'' then Some ''bmp'' else None)"
proof -
  assume l: "length b < 4"
  have s: "\<And>p. 4 \<le> length p \<Longrightarrow> \<not> startswith b p"
    using l by (simp add: startswith_short)
  have r: "slice b 0 4 \<noteq> ''RIFF''"
    using l slice_short [of b 4 0] by auto
  show ?thesis
    unfolding what_header_def using r by (simp add: s)
qed

text \<open>
  C5. The matching stage is total: for every byte sequence given as the prefix,
  \<open>what\<close> returns a value and raises nothing. A prefix shorter than a signature does
  not start with it, and a prefix that ends before offset 3 or offset 11 fails the
  comparison of the slice, so the chain goes on to the next test: the result is that
  of the first matching rule among the rules that fit in the prefix, in the order of
  the table. For a prefix of fewer than four bytes these are the jpeg and the bmp
  rule, and the result is decided by them alone.
\<close>

theorem what_header_total:
  "(\<exists>r. what fs file (Some b) = (Inr r, file, [])) \<and>
   (\<exists>r. what fs (SBytes b) None = (Inr r, SBytes b, [])) \<and>
   (length b < length p \<longrightarrow> \<not> startswith b p) \<and>
   (length b < 4 \<longrightarrow> slice b 0 4 \<noteq> ''RIFF'') \<and>
   (length b < 12 \<longrightarrow> slice b 8 12 \<noteq> ''WEBP'') \<and>
   what_header b = first_match (fitting_rules b) b \<and>
   what fs file (Some b) = (Inr (first_match (fitting_rules b) b), file, []) \<and>
   (length b < 4 \<longrightarrow>
      what fs file (Some b) =
        (Inr (if startswith b [CHR 0xFF, CHR 0xD8, CHR 0xFF] then Some ''jpeg''
              else if startswith b ''BM'' then Some ''bmp'' else None), file, []))"
proof -
  have a: "length b < 4 \<Longrightarrow> slice b 0 4 \<noteq> ''RIFF''"
    using slice_short [of b 4 0] by auto
  have c: "length b < 12 \<Longrightarrow> slice b 8 12 \<noteq> ''WEBP''"
    using slice_short [of b 12 8] by auto
  have old: "(\<exists>r. what fs file (Some b) = (Inr r, file, [])) \<and>
   (\<exists>r. what fs (SBytes b) None = (Inr r, SBytes b, [])) \<and>
   (length b < length p \<longrightarrow> \<not> startswith b p) \<and>
   (length b < 4 \<longrightarrow> slice b 0 4 \<noteq> ''RIFF'') \<and>
   (length b < 12 \<longrightarrow> slice b 8 12 \<noteq> ''WEBP'')"
    using a c by (simp add: what_override what_bytes startswith_short)
  have f: "what_header b = first_match (fitting_rules b) b"
    by (rule what_header_fitting)
  have w: "what fs file (Some b) = (Inr (first_match (fitting_rules b) b), file, [])"
    using f by (simp add: what_override)
  have s: "length b < 4 \<longrightarrow>
      what fs file (Some b) =
        (Inr (if startswith b [CHR 0xFF, CHR 0xD8, CHR 0xFF] then Some ''jpeg''
              else if startswith b ''BM'' then Some ''bmp'' else None), file, [])"
    using what_header_below_4 [of b] by (simp add: what_override)
  show ?thesis
    using old f w s by blast
qed

theorem what_header_total_witness:
  "length ''BM'' < length ''GIF87a'' \<and> \<not> startswith ''BM'' ''GIF87a'' \<and>
   length ''BM'' < 4 \<and> slice ''BM'' 0 4 \<noteq> ''RIFF'' \<and>
   length ''BM'' < 12 \<and> slice ''BM'' 8 12 \<noteq> ''WEBP'' \<and>
   map fst (fitting_rules ''BM'') = [''bmp''] \<and>
   first_match (fitting_rules ''BM'') ''BM'' = Some ''bmp'' \<and>
   what disk SNone (Some ''BM'') = (Inr (Some ''bmp''), SNone, [])"
proof -
  have fit: "map fst (fitting_rules ''BM'') = [''bmp'']"
    by (simp add: fitting_rules_def signature_lengths_def signature_rules_def)
  have fm: "first_match (fitting_rules ''BM'') ''BM'' = Some ''bmp''"
    by (simp add: fitting_rules_def signature_lengths_def signature_rules_def)
  have sl: "slice ''BM'' 0 4 \<noteq> ''RIFF'' \<and> slice ''BM'' 8 12 \<noteq> ''WEBP''"
    by (simp add: slice_def)
  have w: "what disk SNone (Some ''BM'') = (Inr (Some ''bmp''), SNone, [])"
    using fm what_header_total [of disk SNone "''BM''" "''GIF87a''"] by simp
  show ?thesis
    using fit fm sl w by simp
qed


text \<open>
  C7. A byte sequence of fewer than two bytes is not recognised, as the source or as
  the override; in particular the empty sequence and an absent source give \<open>None\<close>.
\<close>

theorem what_short_no_match:
  "length b < 2 \<Longrightarrow>
     what fs (SBytes b) None = (Inr None, SBytes b, []) \<and>
     what fs file (Some b) = (Inr None, file, []) \<and>
     what fs (SBytes []) None = (Inr None, SBytes [], []) \<and>
     what fs SNone None = (Inr None, SNone, [])"
  by (simp add: what_override what_bytes what_header_short)
     (simp add: what_def read_bytes_def what_header_def)

theorem what_short_no_match_witness:
  "length ''B'' < 2 \<and>
   what disk (SBytes ''B'') None = (Inr None, SBytes ''B'', []) \<and>
   what disk (SPath ''photo.jpg'') (Some ''B'') = (Inr None, SPath ''photo.jpg'', []) \<and>
   what disk (SBytes []) None = (Inr None, SBytes [], []) \<and>
   what disk SNone None = (Inr None, SNone, [])"
  using what_short_no_match [of "''B''" disk "SPath ''photo.jpg''"]
  by simp

text \<open>
  C10. Only the first twelve bytes of the prefix count: \<open>what\<close> of \<open>b\<close> and \<open>what\<close> of
  \<open>b[:12]\<close> agree, with no source or with any.
\<close>

theorem what_first_12_bytes:
  "what fs SNone (Some b) = what fs SNone (Some (take 12 b)) \<and>
   what fs file (Some b) = what fs file (Some (take 12 b))"
  by (simp add: what_override what_header_take)

text \<open>
  C8. The two ways of giving the prefix agree: \<open>what\<close> with the override \<open>x\<close> returns
  what it returns for the path of a readable file whose first 64 bytes are those of
  \<open>x\<close> (the file holds \<open>x\<close>, or \<open>x\<close> is what a read of 64 bytes finds).
\<close>

theorem what_file_roundtrip:
  "fs p = Inr c \<Longrightarrow> take 64 c = take 64 x \<Longrightarrow>
     fst (what fs (SPath p) None) = fst (what fs' file (Some x))"
proof -
  assume c: "fs p = Inr c" and t: "take 64 c = take 64 x"
  have "fst (what fs (SPath p) None) = Inr (what_header (take 64 c))"
    using c by (simp add: what_def read_bytes_def)
  also have "\<dots> = Inr (what_header x)"
    using t by (simp add: what_header_take)
  finally show ?thesis
    by (simp add: what_override)
qed

theorem what_file_roundtrip_witness:
  "disk ''photo.jpg'' = Inr jfif \<and> take 64 jfif = take 64 jfif \<and>
   fst (what disk (SPath ''photo.jpg'') None) = Inr (Some ''jpeg'') \<and>
   fst (what disk SNone (Some jfif)) = Inr (Some ''jpeg'')"
  using what_file_roundtrip [of disk "''photo.jpg''" jfif jfif disk SNone]
  by (simp add: disk_def what_override what_header_def jfif_def)

end
